theory Spec2Isabelle
  imports Complex_Main
begin

section \<open>Values of the runtime\<close>

text \<open>
  The program is \<^verbatim>\<open>src/backend/app.py\<close>. It reads an Excel workbook with pandas
  (\<^verbatim>\<open>dtype=object\<close>), keeps one DataFrame per level in the global \<^verbatim>\<open>elden_data\<close>,
  and memoizes advisory texts in the global \<^verbatim>\<open>ai_cache\<close>.

  A cell of a DataFrame is a missing value (\<^verbatim>\<open>NaN\<close>), a number or a string. Python
  \<^verbatim>\<open>int\<close> and finite \<^verbatim>\<open>float\<close> values are both modelled by their exact value;
  rounding errors of binary floating point and the non-finite floats are outside the model.
  Strings are Isabelle strings (lists of 8-bit characters); \<^verbatim>\<open>lower\<close> and \<^verbatim>\<open>strip\<close>
  are modelled on the ASCII range.
\<close>

datatype cell = NaN | Num real | Str string

datatype py_error =
    KeyError string
  | ReError string
  | TypeError
  | OtherError string

text \<open>
  The functions of Python and pandas whose results on text the program relies on are
  parameters of the model, so that every theorem holds whatever they answer:
  \<^item> \<open>to_numeric_str s\<close>: \<^verbatim>\<open>pd.to_numeric(s, errors='coerce')\<close> on a string, \<open>None\<close> for \<^verbatim>\<open>NaN\<close>;
  \<^item> \<open>float_str s\<close>: \<^verbatim>\<open>float(s)\<close>, \<open>None\<close> when it raises (or is not finite);
  \<^item> \<open>int_str s\<close>: \<^verbatim>\<open>int(s)\<close>, \<open>None\<close> when it raises;
  \<^item> \<open>str_num q\<close>: \<^verbatim>\<open>str(q)\<close> of a number;
  \<^item> \<open>re_compile_i p\<close>: \<^verbatim>\<open>re.compile(p, re.IGNORECASE)\<close>, \<open>None\<close> when the pattern is
    rejected (\<^verbatim>\<open>re.error\<close>), otherwise the predicate \<^verbatim>\<open>pat.search(x) is not None\<close>.
\<close>

record pylib =
  to_numeric_str :: "string \<Rightarrow> real option"
  float_str :: "string \<Rightarrow> real option"
  int_str :: "string \<Rightarrow> int option"
  str_num :: "real \<Rightarrow> string"
  re_compile_i :: "string \<Rightarrow> (string \<Rightarrow> bool) option"

definition is_space :: "char \<Rightarrow> bool" where
  "is_space c = (let n = (of_char c :: nat) in (9 \<le> n \<and> n \<le> 13) \<or> (28 \<le> n \<and> n \<le> 32))"

definition strip :: "string \<Rightarrow> string" where
  "strip s = rev (dropWhile is_space (rev (dropWhile is_space s)))"

definition lower_char :: "char \<Rightarrow> char" where
  "lower_char c = (let n = (of_char c :: nat) in if 65 \<le> n \<and> n \<le> 90 then char_of (n + 32) else c)"

definition lower :: "string \<Rightarrow> string" where
  "lower s = map lower_char s"

definition py_str :: "pylib \<Rightarrow> cell \<Rightarrow> string" where
  "py_str L v = (case v of NaN \<Rightarrow> ''nan'' | Num q \<Rightarrow> str_num L q | Str s \<Rightarrow> s)"

text \<open>\<^verbatim>\<open>int(x)\<close> of a number truncates toward zero.\<close>

definition py_int :: "real \<Rightarrow> int" where
  "py_int q = (if 0 \<le> q then \<lfloor>q\<rfloor> else \<lceil>q\<rceil>)"

text \<open>\<^verbatim>\<open>pd.isna\<close> and \<^verbatim>\<open>pd.notna\<close> on what \<^verbatim>\<open>row.get(col)\<close> returns: \<open>None\<close> is Python's
  \<^verbatim>\<open>None\<close> (the column does not exist), which pandas also counts as missing.\<close>

definition isna :: "cell \<Rightarrow> bool" where
  "isna v = (v = NaN)"

definition notna_opt :: "cell option \<Rightarrow> bool" where
  "notna_opt v = (case v of None \<Rightarrow> False | Some c \<Rightarrow> \<not> isna c)"

text \<open>\<^verbatim>\<open>pd.to_numeric(x, errors='coerce')\<close> of one value; \<open>None\<close> stands for \<^verbatim>\<open>NaN\<close>.\<close>

definition to_numeric :: "pylib \<Rightarrow> cell \<Rightarrow> real option" where
  "to_numeric L v = (case v of NaN \<Rightarrow> None | Num q \<Rightarrow> Some q | Str s \<Rightarrow> to_numeric_str L s)"

definition to_numeric_opt :: "pylib \<Rightarrow> cell option \<Rightarrow> real option" where
  "to_numeric_opt L v = (case v of None \<Rightarrow> None | Some c \<Rightarrow> to_numeric L c)"

text \<open>\<^verbatim>\<open>.fillna(0)\<close> on one numeric value.\<close>

definition fillna0 :: "real option \<Rightarrow> real" where
  "fillna0 v = (case v of None \<Rightarrow> 0 | Some q \<Rightarrow> q)"

section \<open>DataFrames\<close>

text \<open>
  A DataFrame is its list of column labels and its rows in order; a row maps a label to
  the cell under it. \<^verbatim>\<open>df[col]\<close> raises \<^verbatim>\<open>KeyError\<close> for a label that is not a column,
  and so does \<^verbatim>\<open>row[col]\<close>; \<^verbatim>\<open>row.get(col)\<close> returns \<^verbatim>\<open>None\<close> instead.
\<close>

type_synonym row = "string \<rightharpoonup> cell"

record frame =
  columns :: "string list"
  rows :: "row list"

type_synonym dataset = "string \<rightharpoonup> frame"

definition cell_of :: "row \<Rightarrow> string \<Rightarrow> cell" where
  "cell_of r c = (case r c of None \<Rightarrow> NaN | Some v \<Rightarrow> v)"

definition get_column :: "frame \<Rightarrow> string \<Rightarrow> py_error + cell list" where
  "get_column df c = (if c \<in> set (columns df) then Inr (map (\<lambda>r. cell_of r c) (rows df))
                      else Inl (KeyError c))"

text \<open>Sequencing of steps that may raise: the first exception ends the computation.\<close>

definition and_then :: "'e + 'a \<Rightarrow> ('a \<Rightarrow> 'e + 'b) \<Rightarrow> 'e + 'b" where
  "and_then m f = (case m of Inl e \<Rightarrow> Inl e | Inr x \<Rightarrow> f x)"

definition row_item :: "row \<Rightarrow> string \<Rightarrow> py_error + cell" where
  "row_item r c = (case r c of None \<Rightarrow> Inl (KeyError c) | Some v \<Rightarrow> Inr v)"


text \<open>\<^verbatim>\<open>df[col] = values\<close>: the column is overwritten, or appended when it is new.\<close>

definition set_column :: "string \<Rightarrow> cell list \<Rightarrow> frame \<Rightarrow> frame" where
  "set_column c vs df =
     \<lparr>columns = (if c \<in> set (columns df) then columns df else columns df @ [c]),
      rows = map (\<lambda>(r, v). r(c \<mapsto> v)) (zip (rows df) vs)\<rparr>"

text \<open>\<^verbatim>\<open>df[mask]\<close>: the rows whose entry in the boolean mask is true.\<close>

definition select_rows :: "bool list \<Rightarrow> frame \<Rightarrow> frame" where
  "select_rows msk df = df\<lparr>rows := map fst (filter snd (zip (rows df) msk))\<rparr>"

section \<open>Ingestion: \<^verbatim>\<open>load_elden_ring_data\<close>\<close>







definition numeric_cols :: "string list" where
  "numeric_cols =
     [''Phys'', ''Strike'', ''Slash'', ''Pierce'', ''Magic'', ''Fire'', ''Ltng'', ''Holy'',
      ''Phys.1'', ''Strike.1'', ''Slash.1'', ''Pierce.1'', ''Magic.1'', ''Fire.1'', ''Ltng.1'', ''Holy.1'',
      ''Base'', ''Effective'', ''Regen Delay'',
      ''Bleed.1'', ''Frost.1'', ''HP Burn Effect'']"

text \<open>The lambda of \<^verbatim>\<open>df.apply(..., axis=1)\<close> that derives the hit points of a row.\<close>

definition hp_of_row :: "pylib \<Rightarrow> row \<Rightarrow> real option" where
  "hp_of_row L r =
     (if notna_opt (r ''dlcClear'') \<and> r ''dlcClear'' \<noteq> Some (Str ''-'')
      then to_numeric_opt L (r ''dlcClear'')
      else to_numeric_opt L (r ''Health''))"

definition num_cell :: "real option \<Rightarrow> cell" where
  "num_cell v = (case v of None \<Rightarrow> NaN | Some q \<Rightarrow> Num q)"

definition fillna0_cell :: "cell \<Rightarrow> cell" where
  "fillna0_cell v = (if isna v then Num 0 else v)"

text \<open>\<^verbatim>\<open>df['HP'] = df.apply(...)\<close> followed by \<^verbatim>\<open>df['HP'] = df['HP'].fillna(0)\<close>.\<close>

definition derive_hp :: "pylib \<Rightarrow> frame \<Rightarrow> frame" where
  "derive_hp L df =
     (let df1 = set_column ''HP'' (map (\<lambda>r. num_cell (hp_of_row L r)) (rows df)) df
      in set_column ''HP'' (map (\<lambda>r. fillna0_cell (cell_of r ''HP'')) (rows df1)) df1)"

text \<open>\<^verbatim>\<open>df[col] = pd.to_numeric(df[col], errors='coerce').fillna(0)\<close> for a column that
  exists, and the loop over \<^verbatim>\<open>numeric_cols\<close>.\<close>

definition coerce_col :: "pylib \<Rightarrow> string \<Rightarrow> frame \<Rightarrow> frame" where
  "coerce_col L c df =
     (if c \<in> set (columns df)
      then set_column c (map (\<lambda>r. Num (fillna0 (to_numeric L (cell_of r c)))) (rows df)) df
      else df)"

definition coerce_numeric :: "pylib \<Rightarrow> frame \<Rightarrow> frame" where
  "coerce_numeric L df = fold (coerce_col L) numeric_cols df"

text \<open>\<^verbatim>\<open>if 'ID' not in df.columns: df['ID'] = range(1, len(df) + 1)\<close>.\<close>

definition ensure_id :: "frame \<Rightarrow> frame" where
  "ensure_id df =
     (if ''ID'' \<notin> set (columns df)
      then set_column ''ID'' (map (\<lambda>i. Num (of_nat i)) [1 ..< length (rows df) + 1]) df
      else df)"

text \<open>The body of the loop over the levels, from the row filter to the \<^verbatim>\<open>ID\<close> column.
  An exception here is caught by the handler of the level.\<close>

definition process_level :: "pylib \<Rightarrow> frame \<Rightarrow> py_error + frame" where
  "process_level L df =
     and_then (get_column df ''Name'') (\<lambda>names.
       (let df1 = select_rows (map (\<lambda>v. \<not> isna v) names) df
        in and_then (get_column df1 ''Name'') (\<lambda>names1.
             (let df2 = select_rows (map (\<lambda>v. v \<noteq> Str ''???'') names1) df1
              in Inr (ensure_id (coerce_numeric L (derive_hp L df2)))))))"

text \<open>
  The artifacts on disk. \<^verbatim>\<open>pickle.load\<close> gives back what \<^verbatim>\<open>pickle.dump\<close> stored, and
  raises on a file it cannot read. What opening the file for writing and
  \<^verbatim>\<open>pickle.dump\<close> leave on disk is a parameter \<open>dump\<close> of the old content and the value:
  the write succeeded when the result is \<open>Stored\<close> of the value; the program swallows a
  failure of the write.
\<close>

datatype 'a artifact = Absent | Unreadable | Stored 'a











section \<open>Queries\<close>

text \<open>\<^verbatim>\<open>col.str.contains(pat, case=False, na=False)\<close>: the pattern is compiled first; an
  entry that is not a string counts as no match.\<close>

definition str_contains :: "pylib \<Rightarrow> string \<Rightarrow> cell list \<Rightarrow> py_error + bool list" where
  "str_contains L pat col =
     (case re_compile_i L pat of
        None \<Rightarrow> Inl (ReError pat)
      | Some found \<Rightarrow> Inr (map (\<lambda>v. case v of Str s \<Rightarrow> found s | _ \<Rightarrow> False) col))"

subsection \<open>\<^verbatim>\<open>search_enemies\<close>\<close>

record hit =
  hit_name :: cell
  hit_location :: cell
  hit_hp :: int
  hit_id :: cell

text \<open>\<^verbatim>\<open>int(row['HP']) if pd.notna(row['HP']) and row['HP'] > 0 else 0\<close>; comparing a string
  with \<^verbatim>\<open>0\<close> raises.\<close>

definition positive_hp :: "cell \<Rightarrow> py_error + int" where
  "positive_hp v = (case v of NaN \<Rightarrow> Inr 0
                    | Num q \<Rightarrow> Inr (if 0 < q then py_int q else 0)
                    | Str s \<Rightarrow> Inl TypeError)"

definition hit_of_row :: "row \<Rightarrow> py_error + hit" where
  "hit_of_row r =
     and_then (row_item r ''Name'') (\<lambda>n.
     and_then (row_item r ''Location'') (\<lambda>l.
     and_then (row_item r ''HP'') (\<lambda>h.
     and_then (positive_hp h) (\<lambda>hpv.
     and_then (row_item r ''ID'') (\<lambda>i.
     Inr \<lparr>hit_name = n, hit_location = l, hit_hp = hpv, hit_id = i\<rparr>)))))"

fun collect_hits :: "row list \<Rightarrow> hit list \<Rightarrow> py_error + hit list" where
  "collect_hits [] enemies = Inr enemies"
| "collect_hits (r # rs) enemies =
     (case hit_of_row r of Inl e \<Rightarrow> Inl e | Inr h \<Rightarrow> collect_hits rs (enemies @ [h]))"

definition search_enemies :: "pylib \<Rightarrow> dataset \<Rightarrow> string \<Rightarrow> string \<Rightarrow> py_error + hit list" where
  "search_enemies L data query ng_level =
     (case data ng_level of
        None \<Rightarrow> Inr []
      | Some df \<Rightarrow>
          and_then (get_column df ''Name'') (\<lambda>names.
          and_then (str_contains L query names) (\<lambda>msk.
          collect_hits (rows (select_rows msk df)) [])))"

subsection \<open>\<^verbatim>\<open>search_by_region\<close>\<close>

record region_hit =
  rh_name :: cell
  rh_location :: cell

definition region_hit_of_row :: "row \<Rightarrow> py_error + region_hit" where
  "region_hit_of_row r =
     and_then (row_item r ''Name'') (\<lambda>n.
     and_then (row_item r ''Location'') (\<lambda>l.
     Inr \<lparr>rh_name = n, rh_location = l\<rparr>))"

fun collect_region_hits :: "row list \<Rightarrow> region_hit list \<Rightarrow> py_error + region_hit list" where
  "collect_region_hits [] enemies = Inr enemies"
| "collect_region_hits (r # rs) enemies =
     (case region_hit_of_row r of Inl e \<Rightarrow> Inl e
      | Inr h \<Rightarrow> collect_region_hits rs (enemies @ [h]))"

definition search_by_region :: "pylib \<Rightarrow> dataset \<Rightarrow> string \<Rightarrow> string \<Rightarrow> py_error + region_hit list" where
  "search_by_region L data region ng_level =
     (case data ng_level of
        None \<Rightarrow> Inr []
      | Some df \<Rightarrow>
          and_then (get_column df ''Location'') (\<lambda>locs.
          and_then (str_contains L region locs) (\<lambda>msk.
          collect_region_hits (rows (select_rows msk df)) [])))"

subsection \<open>\<^verbatim>\<open>get_enemy_details\<close>\<close>

text \<open>\<^verbatim>\<open>float(value)\<close>: \<open>None\<close> when it raises. (A \<^verbatim>\<open>NaN\<close> never reaches it: every caller
  tests \<^verbatim>\<open>pd.isna\<close> first.)\<close>

definition py_float :: "pylib \<Rightarrow> cell \<Rightarrow> real option" where
  "py_float L v = (case v of NaN \<Rightarrow> None | Num q \<Rightarrow> Some q | Str s \<Rightarrow> float_str L s)"




















subsection \<open>\<^verbatim>\<open>calculate_region_average\<close>\<close>

definition mean :: "real list \<Rightarrow> real" where
  "mean xs = sum_list xs / of_nat (length xs)"

text \<open>\<^verbatim>\<open>round(x, 1)\<close>: to the nearest tenth, a tie to the even neighbour.\<close>

definition round_half_even :: "real \<Rightarrow> int" where
  "round_half_even x =
     (let f = \<lfloor>x\<rfloor>; d = x - of_int f
      in if d < 1 / 2 then f else if 1 / 2 < d then f + 1 else if even f then f else f + 1)"

definition round1 :: "real \<Rightarrow> real" where
  "round1 x = of_int (round_half_even (x * 10)) / 10"

text \<open>The loop of the helper \<^verbatim>\<open>avg_resistance\<close> that gathers \<^verbatim>\<open>values\<close>.\<close>

fun resistance_values :: "pylib \<Rightarrow> cell list \<Rightarrow> real list \<Rightarrow> real list" where
  "resistance_values L [] vals = vals"
| "resistance_values L (v # rest) vals =
     (if isna v \<or> lower (strip (py_str L v)) = ''immune'' then resistance_values L rest vals
      else case py_float L v of
             None \<Rightarrow> resistance_values L rest vals
           | Some q \<Rightarrow> resistance_values L rest (vals @ [q]))"

definition avg_resistance :: "pylib \<Rightarrow> frame \<Rightarrow> string \<Rightarrow> py_error + int option" where
  "avg_resistance L region_df column_name =
     and_then (get_column region_df column_name) (\<lambda>col.
       (let vals = resistance_values L col []
        in Inr (if vals \<noteq> [] then Some (py_int (mean vals)) else None)))"

text \<open>The helper \<^verbatim>\<open>safe_avg\<close>.\<close>

definition dropna :: "real option list \<Rightarrow> real list" where
  "dropna vs = List.map_filter (\<lambda>v. v) vs"

definition safe_avg :: "pylib \<Rightarrow> frame \<Rightarrow> string \<Rightarrow> real" where
  "safe_avg L region_df col_name =
     (if col_name \<in> set (columns region_df)
      then (let numeric_vals = dropna (map (\<lambda>r. to_numeric L (cell_of r col_name)) (rows region_df))
            in if length numeric_vals > 0 then round1 (mean numeric_vals) else 0)
      else 0)"

text \<open>\<^verbatim>\<open>int(region_df['HP'].mean()) if region_df['HP'].notna().any() else 0\<close>; the mean of
  pandas skips \<^verbatim>\<open>NaN\<close> and raises on text.\<close>

definition hp_numbers :: "cell list \<Rightarrow> py_error + real list" where
  "hp_numbers col =
     (if (\<exists>v \<in> set col. case v of Str s \<Rightarrow> True | _ \<Rightarrow> False) then Inl TypeError
      else Inr (List.map_filter (\<lambda>v. case v of Num q \<Rightarrow> Some q | _ \<Rightarrow> None) col))"

definition region_avg_hp :: "frame \<Rightarrow> py_error + int" where
  "region_avg_hp region_df =
     and_then (get_column region_df ''HP'') (\<lambda>col.
       if (\<exists>v \<in> set col. \<not> isna v)
       then and_then (hp_numbers col) (\<lambda>qs. Inr (py_int (mean qs)))
       else Inr 0)"

definition negation_columns :: "(string \<times> string) list" where
  "negation_columns =
     [(''physical'', ''Phys.1''), (''strike'', ''Strike.1''), (''slash'', ''Slash.1''),
      (''pierce'', ''Pierce.1''), (''magic'', ''Magic.1''), (''fire'', ''Fire.1''),
      (''lightning'', ''Ltng.1''), (''holy'', ''Holy.1'')]"

definition resistance_columns :: "(string \<times> string) list" where
  "resistance_columns =
     [(''poison'', ''Poison''), (''scarlet_rot'', ''Scarlet Rot''), (''bleed'', ''Bleed''),
      (''frost'', ''Frost''), (''sleep'', ''Sleep''), (''madness'', ''Madness''),
      (''deathblight'', ''Deathblight'')]"

text \<open>The dictionary comprehension over the resistance columns: the entries in order, or the
  first exception.\<close>

fun avg_resistances_of :: "pylib \<Rightarrow> frame \<Rightarrow> (string \<times> string) list \<Rightarrow> py_error + (string \<times> int option) list" where
  "avg_resistances_of L region_df [] = Inr []"
| "avg_resistances_of L region_df ((k, col) # rest) =
     and_then (avg_resistance L region_df col) (\<lambda>a.
     and_then (avg_resistances_of L region_df rest) (\<lambda>d. Inr ((k, a) # d)))"

record region_stats =
  region :: string
  enemy_count :: nat
  avg_hp :: int
  avg_damage_negation :: "(string \<times> real) list"
  avg_resistances :: "(string \<times> int option) list"
  avg_poise :: "(string \<times> real) list"
  avg_status_multipliers :: "(string \<times> real) list"

text \<open>\<^verbatim>\<open>df[df['Location'].str.contains(region, case=False, na=False)]\<close>.\<close>

definition region_frame :: "pylib \<Rightarrow> frame \<Rightarrow> string \<Rightarrow> py_error + frame" where
  "region_frame L df reg =
     and_then (get_column df ''Location'') (\<lambda>locs.
     and_then (str_contains L reg locs) (\<lambda>msk. Inr (select_rows msk df)))"

definition calculate_region_average ::
  "pylib \<Rightarrow> dataset \<Rightarrow> string \<Rightarrow> string \<Rightarrow> py_error + region_stats option" where
  "calculate_region_average L data reg ng_level =
     (case data ng_level of
        None \<Rightarrow> Inr None
      | Some df \<Rightarrow>
          and_then (region_frame L df reg) (\<lambda>region_df.
            if length (rows region_df) = 0 then Inr None
            else
              and_then (region_avg_hp region_df) (\<lambda>h.
              and_then (avg_resistances_of L region_df resistance_columns) (\<lambda>res.
              Inr (Some
                \<lparr>region = reg,
                 enemy_count = length (rows region_df),
                 avg_hp = h,
                 avg_damage_negation = map (\<lambda>(k, col). (k, safe_avg L region_df col)) negation_columns,
                 avg_resistances = res,
                 avg_poise =
                   [(''base'', safe_avg L region_df ''Base''),
                    (''effective'', safe_avg L region_df ''Effective''),
                    (''regen_delay'', safe_avg L region_df ''Regen Delay'')],
                 avg_status_multipliers =
                   [(''bleed'', safe_avg L region_df ''Bleed.1''),
                    (''frost'', safe_avg L region_df ''Frost.1''),
                    (''black_flame'', safe_avg L region_df ''HP Burn Effect'')]\<rparr>)))))"

section \<open>The advisory cache\<close>

text \<open>
  The argument \<^verbatim>\<open>enemy_data\<close> of \<^verbatim>\<open>analyze_with_ai\<close> is a dictionary: the one built by
  \<^verbatim>\<open>get_enemy_details\<close> has the keys \<^verbatim>\<open>name\<close> and \<^verbatim>\<open>location\<close> (here as the text the
  f-string prints) and no key \<^verbatim>\<open>region\<close>; the one built by \<^verbatim>\<open>calculate_region_average\<close>
  has the key \<^verbatim>\<open>region\<close> and no key \<^verbatim>\<open>name\<close>. The other entries are the payload \<open>'a\<close>.
\<close>

datatype 'a enemy_data = EnemyData string string 'a | RegionData string 'a

definition cache_key :: "string \<Rightarrow> 'a enemy_data \<Rightarrow> py_error + string" where
  "cache_key context d =
     (if context = ''enemy''
      then (case d of EnemyData n l p \<Rightarrow> Inr (''enemy_'' @ n @ ''_'' @ l)
            | RegionData r p \<Rightarrow> Inl (KeyError ''name''))
      else (case d of RegionData r p \<Rightarrow> Inr (''region_'' @ r)
            | EnemyData n l p \<Rightarrow> Inl (KeyError ''region'')))"

text \<open>
  The collaborators: \<open>prompt_of\<close> builds the prompt from the dictionary (it may raise),
  \<open>service\<close> is the call of the reasoning service together with the extraction of the text
  of its answer, on the number of calls made before and the prompt, and \<open>dump_ai\<close> is what
  a write of the advisory cache leaves on disk.
\<close>

record 'a collaborators =
  prompt_of :: "string \<Rightarrow> 'a enemy_data \<Rightarrow> py_error + string"
  service :: "nat \<Rightarrow> string \<Rightarrow> py_error + string"
  dump_ai :: "(string \<rightharpoonup> string) artifact \<Rightarrow> (string \<rightharpoonup> string) \<Rightarrow> (string \<rightharpoonup> string) artifact"

record advisor_state =
  ai_cache :: "string \<rightharpoonup> string"
  ai_cache_file :: "(string \<rightharpoonup> string) artifact"
  requests :: "string list"

definition fallback_text :: string where
  "fallback_text = ''Strategy analysis unavailable. Check enemy weaknesses in the stats.''"

definition save_ai_cache :: "'a collaborators \<Rightarrow> (string \<rightharpoonup> string) \<Rightarrow> advisor_state \<Rightarrow> advisor_state" where
  "save_ai_cache E cache st = st\<lparr>ai_cache_file := dump_ai E (ai_cache_file st) cache\<rparr>"

definition analyze_with_ai ::
  "'a collaborators \<Rightarrow> 'a enemy_data \<Rightarrow> string \<Rightarrow> advisor_state \<Rightarrow> (py_error + string) \<times> advisor_state" where
  "analyze_with_ai E d context st =
     (case cache_key context d of
        Inl e \<Rightarrow> (Inl e, st)
      | Inr key \<Rightarrow>
          (case ai_cache st key of
             Some text \<Rightarrow> (Inr text, st)
           | None \<Rightarrow>
               (case prompt_of E context d of
                  Inl e \<Rightarrow> (Inr fallback_text, st)
                | Inr prompt \<Rightarrow>
                    (let st1 = st\<lparr>requests := requests st @ [prompt]\<rparr>
                     in case service E (length (requests st)) prompt of
                          Inl e \<Rightarrow> (Inr fallback_text, st1)
                        | Inr response_text \<Rightarrow>
                            (let st2 = st1\<lparr>ai_cache := (ai_cache st1)(key \<mapsto> response_text)\<rparr>
                             in (Inr response_text, save_ai_cache E (ai_cache st2) st2))))))"

text \<open>The route \<^verbatim>\<open>/api/cache/update\<close>; \<open>None\<close> is a field missing from the request.\<close>

datatype update_response = Updated string | MissingField

definition update_ai_cache ::
  "'a collaborators \<Rightarrow> string option \<Rightarrow> string option \<Rightarrow> advisor_state \<Rightarrow> update_response \<times> advisor_state" where
  "update_ai_cache E enemy_name new_strategy st =
     (case enemy_name of
        None \<Rightarrow> (MissingField, st)
      | Some n \<Rightarrow>
          (case new_strategy of
             None \<Rightarrow> (MissingField, st)
           | Some s \<Rightarrow>
               if n = [] \<or> s = [] then (MissingField, st)
               else (let key = ''enemy_'' @ n;
                         st1 = st\<lparr>ai_cache := (ai_cache st)(key \<mapsto> s)\<rparr>
                     in (Updated key, save_ai_cache E (ai_cache st1) st1))))"

section \<open>A concrete library and concrete data for the examples\<close>

text \<open>
  The theorems below hold for every library \<open>L\<close>. Their examples are evaluated with a small
  one: numbers in text are plain runs of decimal digits, and a pattern is searched as
  literal text, letter case ignored.
\<close>

fun digits_nat :: "string \<Rightarrow> nat \<Rightarrow> nat option" where
  "digits_nat [] acc = Some acc"
| "digits_nat (c # cs) acc =
     (let n = (of_char c :: nat)
      in if 48 \<le> n \<and> n \<le> 57 then digits_nat cs (acc * 10 + (n - 48)) else None)"

definition plain_number :: "string \<Rightarrow> nat option" where
  "plain_number s = (if s = [] then None else digits_nat s 0)"

fun has_infix :: "string \<Rightarrow> string \<Rightarrow> bool" where
  "has_infix p [] = (p = [])"
| "has_infix p (c # cs) = (take (length p) (c # cs) = p \<or> has_infix p cs)"

definition plain_lib :: pylib where
  "plain_lib =
     \<lparr>to_numeric_str = (\<lambda>s. map_option of_nat (plain_number s)),
      float_str = (\<lambda>s. map_option of_nat (plain_number s)),
      int_str = (\<lambda>s. map_option int (plain_number s)),
      str_num = (\<lambda>q. ''0''),
      re_compile_i = (\<lambda>p. Some (\<lambda>s. has_infix (lower p) (lower s)))\<rparr>"

definition demo_collaborators :: "unit collaborators" where
  "demo_collaborators =
     \<lparr>prompt_of = (\<lambda>context d. Inr (case d of EnemyData n l p \<Rightarrow> n @ '' at '' @ l
                                           | RegionData r p \<Rightarrow> r)),
      service = (\<lambda>k prompt. if k = 0 then Inl (OtherError ''timeout'')
                             else Inr (''Advice for '' @ prompt)),
      dump_ai = (\<lambda>old cache. Stored cache)\<rparr>"

definition fresh_advisor :: advisor_state where
  "fresh_advisor = \<lparr>ai_cache = Map.empty, ai_cache_file = Absent, requests = []\<rparr>"

definition used_advisor :: advisor_state where
  "used_advisor = \<lparr>ai_cache = Map.empty, ai_cache_file = Absent, requests = [''Limgrave'']\<rparr>"

definition no_location_frame :: frame where
  "no_location_frame =
     \<lparr>columns = [''Name'', ''HP'', ''ID''],
      rows = [[''Name'' \<mapsto> Str ''Runebear'', ''HP'' \<mapsto> Num 1000, ''ID'' \<mapsto> Num 1]]\<rparr>"




















definition kept_rows :: "frame \<Rightarrow> row list" where
  "kept_rows raw =
     filter (\<lambda>r. cell_of r ''Name'' \<noteq> NaN \<and> cell_of r ''Name'' \<noteq> Str ''???'') (rows raw)"




text \<open>Auxiliary views for the proofs: the cells of a column in row order, and the coercion
  of one cell of a numeric column.\<close>

definition column_cells :: "frame \<Rightarrow> string \<Rightarrow> cell list" where
  "column_cells df c = map (\<lambda>r. cell_of r c) (rows df)"





section \<open>Properties of the DataFrame operations\<close>

lemma zip_map_same: "zip xs (map f xs) = map (\<lambda>x. (x, f x)) xs"
  by (induction xs) auto

lemma rows_set_column_map:
  "rows (set_column c (map f (rows df)) df) = map (\<lambda>r. r(c \<mapsto> f r)) (rows df)"
  by (simp add: set_column_def zip_map_same)

lemma columns_set_column:
  "columns (set_column c vs df) = (if c \<in> set (columns df) then columns df else columns df @ [c])"
  by (simp add: set_column_def)

section \<open>Ingestion: the derived hit points\<close>

lemma rows_derive_hp:
  "rows (derive_hp L df) = map (\<lambda>r. r(''HP'' \<mapsto> Num (fillna0 (hp_of_row L r)))) (rows df)"
proof -
  define df1 where "df1 = set_column ''HP'' (map (\<lambda>r. num_cell (hp_of_row L r)) (rows df)) df"
  have r1: "rows df1 = map (\<lambda>r. r(''HP'' \<mapsto> num_cell (hp_of_row L r))) (rows df)"
    unfolding df1_def by (rule rows_set_column_map)
  have "rows (derive_hp L df)
        = map (\<lambda>r. r(''HP'' \<mapsto> fillna0_cell (cell_of r ''HP''))) (rows df1)"
    unfolding derive_hp_def Let_def df1_def [symmetric] by (rule rows_set_column_map)
  also have "\<dots> = map (\<lambda>r. r(''HP'' \<mapsto> Num (fillna0 (hp_of_row L r)))) (rows df)"
    unfolding r1
    by (auto simp add: cell_of_def fillna0_cell_def num_cell_def fillna0_def isna_def
        split: option.splits)
  finally show ?thesis .
qed

lemma columns_derive_hp:
  "columns (derive_hp L df) = (if ''HP'' \<in> set (columns df) then columns df else columns df @ [''HP''])"
  by (simp add: derive_hp_def Let_def columns_set_column)




section \<open>Queries on a table without the optional columns\<close>

text \<open>
  C2. The claim makes every query total, also on a dataset whose table lacks the optional
  column \<^verbatim>\<open>Location\<close>. \<^verbatim>\<open>get_enemy_details\<close> reads that column with
  \<^verbatim>\<open>.get('Location', 'Unknown')\<close>, but \<^verbatim>\<open>search_by_region\<close> and
  \<^verbatim>\<open>calculate_region_average\<close> index \<^verbatim>\<open>df['Location']\<close> directly: on a level whose
  table has no such column both raise \<^verbatim>\<open>KeyError\<close>, for every region asked for.
\<close>

theorem C2_missing_Location_raises:
  assumes "data ng = Some df" and "''Location'' \<notin> set (columns df)"
  shows "search_by_region L data reg ng = Inl (KeyError ''Location'')
       \<and> calculate_region_average L data reg ng = Inl (KeyError ''Location'')"
  using assms
  by (simp add: search_by_region_def calculate_region_average_def region_frame_def
      get_column_def and_then_def)

theorem C2_missing_Location_raises_witness:
  "[''NG'' \<mapsto> no_location_frame] ''NG'' = Some no_location_frame
   \<and> ''Location'' \<notin> set (columns no_location_frame)
   \<and> search_by_region plain_lib [''NG'' \<mapsto> no_location_frame] ''Limgrave'' ''NG''
       = Inl (KeyError ''Location'')
   \<and> calculate_region_average plain_lib [''NG'' \<mapsto> no_location_frame] ''Limgrave'' ''NG''
       = Inl (KeyError ''Location'')"
proof -
  have a: "[''NG'' \<mapsto> no_location_frame] ''NG'' = Some no_location_frame"
    by simp
  have b: "''Location'' \<notin> set (columns no_location_frame)"
    by (simp add: no_location_frame_def)
  from C2_missing_Location_raises
         [of "[''NG'' \<mapsto> no_location_frame]" "''NG''" no_location_frame plain_lib "''Limgrave''", OF a b]
       a b
  show ?thesis
    by simp
qed

section \<open>The advisory cache\<close>

text \<open>
  C6. The key of an enemy is the text \<^verbatim>\<open>enemy_\<close>, the name, \<^verbatim>\<open>_\<close> and the location, whatever
  else the dictionary holds. On a miss for that key, when the prompt can be built, the
  reasoning service answers and the write of the artifact succeeds, the lookup sends one
  request, stores the answer under the key in memory, leaves the artifact equal to the
  new cache and returns the answer. From the state it leaves, every lookup with the same name
  and location returns that text and leaves the state as it is: no request is sent,
  whatever the collaborators are.
\<close>

theorem C6_lookup_memoized:
  assumes miss: "ai_cache st (''enemy_'' @ n @ ''_'' @ l) = None"
    and prompt: "prompt_of E ''enemy'' (EnemyData n l p) = Inr prompt"
    and answer: "service E (length (requests st)) prompt = Inr response"
    and written: "dump_ai E (ai_cache_file st) ((ai_cache st)(''enemy_'' @ n @ ''_'' @ l \<mapsto> response))
                  = Stored ((ai_cache st)(''enemy_'' @ n @ ''_'' @ l \<mapsto> response))"
    and after: "st' = snd (analyze_with_ai E (EnemyData n l p) ''enemy'' st)"
  shows "cache_key ''enemy'' (EnemyData n l p) = Inr (''enemy_'' @ n @ ''_'' @ l)
    \<and> analyze_with_ai E (EnemyData n l p) ''enemy'' st = (Inr response, st')
    \<and> requests st' = requests st @ [prompt]
    \<and> ai_cache st' = (ai_cache st)(''enemy_'' @ n @ ''_'' @ l \<mapsto> response)
    \<and> ai_cache_file st' = Stored (ai_cache st')
    \<and> (\<forall>E' p'. analyze_with_ai E' (EnemyData n l p') ''enemy'' st' = (Inr response, st'))"
  using assms
  by (simp add: analyze_with_ai_def cache_key_def Let_def save_ai_cache_def)

theorem C6_lookup_memoized_witness:
  "ai_cache used_advisor (''enemy_'' @ ''Runebear'' @ ''_'' @ ''Limgrave'') = None
   \<and> prompt_of demo_collaborators ''enemy'' (EnemyData ''Runebear'' ''Limgrave'' ()) = Inr ''Runebear at Limgrave''
   \<and> service demo_collaborators (length (requests used_advisor)) ''Runebear at Limgrave''
       = Inr ''Advice for Runebear at Limgrave''
   \<and> cache_key ''enemy'' (EnemyData ''Runebear'' ''Limgrave'' ()) = Inr ''enemy_Runebear_Limgrave''
   \<and> fst (analyze_with_ai demo_collaborators (EnemyData ''Runebear'' ''Limgrave'' ()) ''enemy'' used_advisor)
       = Inr ''Advice for Runebear at Limgrave''
   \<and> requests (snd (analyze_with_ai demo_collaborators (EnemyData ''Runebear'' ''Limgrave'' ()) ''enemy'' used_advisor))
       = [''Limgrave'', ''Runebear at Limgrave'']
   \<and> ai_cache_file (snd (analyze_with_ai demo_collaborators (EnemyData ''Runebear'' ''Limgrave'' ()) ''enemy'' used_advisor))
       = Stored [''enemy_Runebear_Limgrave'' \<mapsto> ''Advice for Runebear at Limgrave'']
   \<and> analyze_with_ai demo_collaborators (EnemyData ''Runebear'' ''Limgrave'' ()) ''enemy''
        (snd (analyze_with_ai demo_collaborators (EnemyData ''Runebear'' ''Limgrave'' ()) ''enemy'' used_advisor))
       = (Inr ''Advice for Runebear at Limgrave'',
          snd (analyze_with_ai demo_collaborators (EnemyData ''Runebear'' ''Limgrave'' ()) ''enemy'' used_advisor))"
proof -
  have a: "ai_cache used_advisor (''enemy_'' @ ''Runebear'' @ ''_'' @ ''Limgrave'') = None"
    by (simp add: used_advisor_def)
  have b: "prompt_of demo_collaborators ''enemy'' (EnemyData ''Runebear'' ''Limgrave'' ()) = Inr ''Runebear at Limgrave''"
    by (simp add: demo_collaborators_def)
  have c: "service demo_collaborators (length (requests used_advisor)) ''Runebear at Limgrave''
       = Inr ''Advice for Runebear at Limgrave''"
    by (simp add: demo_collaborators_def used_advisor_def)
  have d: "dump_ai demo_collaborators (ai_cache_file used_advisor)
             ((ai_cache used_advisor)(''enemy_'' @ ''Runebear'' @ ''_'' @ ''Limgrave'' \<mapsto> ''Advice for Runebear at Limgrave''))
           = Stored ((ai_cache used_advisor)(''enemy_'' @ ''Runebear'' @ ''_'' @ ''Limgrave'' \<mapsto> ''Advice for Runebear at Limgrave''))"
    by (simp add: demo_collaborators_def)
  note t = C6_lookup_memoized [OF a b c d refl]
  have k: "cache_key ''enemy'' (EnemyData ''Runebear'' ''Limgrave'' ()) = Inr ''enemy_Runebear_Limgrave''"
    using t [THEN conjunct1] by simp
  have r: "fst (analyze_with_ai demo_collaborators (EnemyData ''Runebear'' ''Limgrave'' ()) ''enemy'' used_advisor)
       = Inr ''Advice for Runebear at Limgrave''"
    using t [THEN conjunct2, THEN conjunct1] by (metis fst_conv)
  have q: "requests (snd (analyze_with_ai demo_collaborators (EnemyData ''Runebear'' ''Limgrave'' ()) ''enemy'' used_advisor))
       = [''Limgrave'', ''Runebear at Limgrave'']"
    using t [THEN conjunct2, THEN conjunct2, THEN conjunct1] by (simp add: used_advisor_def)
  have m: "ai_cache (snd (analyze_with_ai demo_collaborators (EnemyData ''Runebear'' ''Limgrave'' ()) ''enemy'' used_advisor))
       = [''enemy_Runebear_Limgrave'' \<mapsto> ''Advice for Runebear at Limgrave'']"
    using t [THEN conjunct2, THEN conjunct2, THEN conjunct2, THEN conjunct1]
    by (simp add: used_advisor_def)
  have f: "ai_cache_file (snd (analyze_with_ai demo_collaborators (EnemyData ''Runebear'' ''Limgrave'' ()) ''enemy'' used_advisor))
       = Stored [''enemy_Runebear_Limgrave'' \<mapsto> ''Advice for Runebear at Limgrave'']"
    using t [THEN conjunct2, THEN conjunct2, THEN conjunct2, THEN conjunct2, THEN conjunct1] m
    by simp
  have e: "analyze_with_ai demo_collaborators (EnemyData ''Runebear'' ''Limgrave'' ()) ''enemy''
        (snd (analyze_with_ai demo_collaborators (EnemyData ''Runebear'' ''Limgrave'' ()) ''enemy'' used_advisor))
       = (Inr ''Advice for Runebear at Limgrave'',
          snd (analyze_with_ai demo_collaborators (EnemyData ''Runebear'' ''Limgrave'' ()) ''enemy'' used_advisor))"
    by (rule t [THEN conjunct2, THEN conjunct2, THEN conjunct2, THEN conjunct2, THEN conjunct2,
          THEN spec, THEN spec])
  show ?thesis
    by (intro conjI a b c k r q f e)
qed


text \<open>
  C9. The admin update of an enemy that has a name and a strategy writes the key
  \<^verbatim>\<open>enemy_\<close> followed by the name. That key differs from the key of every lookup of the same
  name, whatever the location. So when the lookup key was not cached before the update, the
  lookup after the update still sends a request to the reasoning service and returns its
  answer (or the fallback text), not the text the admin stored.
\<close>

theorem C9_admin_key_never_hits:
  assumes named: "n \<noteq> []" and worded: "s \<noteq> []"
    and miss: "ai_cache st (''enemy_'' @ n @ ''_'' @ l) = None"
    and prompt: "prompt_of E ''enemy'' (EnemyData n l p) = Inr prompt"
  shows "fst (update_ai_cache E (Some n) (Some s) st) = Updated (''enemy_'' @ n)
    \<and> ai_cache (snd (update_ai_cache E (Some n) (Some s) st)) = (ai_cache st)(''enemy_'' @ n \<mapsto> s)
    \<and> ''enemy_'' @ n \<noteq> ''enemy_'' @ n @ ''_'' @ l
    \<and> cache_key ''enemy'' (EnemyData n l p) = Inr (''enemy_'' @ n @ ''_'' @ l)
    \<and> requests (snd (analyze_with_ai E (EnemyData n l p) ''enemy''
                       (snd (update_ai_cache E (Some n) (Some s) st))))
        = requests st @ [prompt]
    \<and> fst (analyze_with_ai E (EnemyData n l p) ''enemy''
              (snd (update_ai_cache E (Some n) (Some s) st)))
        = Inr (case service E (length (requests st)) prompt of
                 Inl e \<Rightarrow> fallback_text | Inr t \<Rightarrow> t)"
  using assms
  by (simp add: update_ai_cache_def analyze_with_ai_def cache_key_def Let_def save_ai_cache_def
      split: sum.splits)

theorem C9_admin_key_never_hits_witness:
  "''Runebear'' \<noteq> [] \<and> ''Use fire'' \<noteq> []
   \<and> ai_cache used_advisor (''enemy_'' @ ''Runebear'' @ ''_'' @ ''Limgrave'') = None
   \<and> prompt_of demo_collaborators ''enemy'' (EnemyData ''Runebear'' ''Limgrave'' ()) = Inr ''Runebear at Limgrave''
   \<and> fst (update_ai_cache demo_collaborators (Some ''Runebear'') (Some ''Use fire'') used_advisor)
       = Updated ''enemy_Runebear''
   \<and> ai_cache (snd (update_ai_cache demo_collaborators (Some ''Runebear'') (Some ''Use fire'') used_advisor))
        ''enemy_Runebear'' = Some ''Use fire''
   \<and> requests (snd (analyze_with_ai demo_collaborators (EnemyData ''Runebear'' ''Limgrave'' ()) ''enemy''
                       (snd (update_ai_cache demo_collaborators (Some ''Runebear'') (Some ''Use fire'') used_advisor))))
        = [''Limgrave'', ''Runebear at Limgrave'']
   \<and> fst (analyze_with_ai demo_collaborators (EnemyData ''Runebear'' ''Limgrave'' ()) ''enemy''
              (snd (update_ai_cache demo_collaborators (Some ''Runebear'') (Some ''Use fire'') used_advisor)))
        = Inr ''Advice for Runebear at Limgrave''"
proof -
  have a: "''Runebear'' \<noteq> []" and b: "''Use fire'' \<noteq> []"
    by simp_all
  have c: "ai_cache used_advisor (''enemy_'' @ ''Runebear'' @ ''_'' @ ''Limgrave'') = None"
    by (simp add: used_advisor_def)
  have d: "prompt_of demo_collaborators ''enemy'' (EnemyData ''Runebear'' ''Limgrave'' ()) = Inr ''Runebear at Limgrave''"
    by (simp add: demo_collaborators_def)
  have q: "requests used_advisor = [''Limgrave'']" "ai_cache used_advisor = Map.empty"
    by (simp_all add: used_advisor_def)
  have s: "service demo_collaborators (Suc 0) ''Runebear at Limgrave'' = Inr ''Advice for Runebear at Limgrave''"
    by (simp add: demo_collaborators_def)
  from C9_admin_key_never_hits [OF a b c d] a b c d show ?thesis
    by (simp add: q s)
qed


text \<open>
  C10. On a miss, when the call of the reasoning service raises, the lookup returns the
  fixed fallback text; the cache in memory and the artifact on disk are as before (only the
  request is recorded), so the next lookup of the same subject sends a request again.
\<close>

theorem C10_failure_not_memoized:
  assumes key: "cache_key context d = Inr key" and miss: "ai_cache st key = None"
    and prompt: "prompt_of E context d = Inr prompt"
    and failure: "service E (length (requests st)) prompt = Inl e"
  shows "analyze_with_ai E d context st
           = (Inr fallback_text, st\<lparr>requests := requests st @ [prompt]\<rparr>)
    \<and> requests (snd (analyze_with_ai E d context (st\<lparr>requests := requests st @ [prompt]\<rparr>)))
        = requests st @ [prompt, prompt]"
  using assms
  by (simp add: analyze_with_ai_def Let_def save_ai_cache_def split: sum.splits)


theorem C10_failure_not_memoized_witness:
  "cache_key ''enemy'' (EnemyData ''Runebear'' ''Limgrave'' ()) = Inr ''enemy_Runebear_Limgrave''
   \<and> ai_cache fresh_advisor ''enemy_Runebear_Limgrave'' = None
   \<and> prompt_of demo_collaborators ''enemy'' (EnemyData ''Runebear'' ''Limgrave'' ()) = Inr ''Runebear at Limgrave''
   \<and> service demo_collaborators (length (requests fresh_advisor)) ''Runebear at Limgrave''
       = Inl (OtherError ''timeout'')
   \<and> analyze_with_ai demo_collaborators (EnemyData ''Runebear'' ''Limgrave'' ()) ''enemy'' fresh_advisor
       = (Inr fallback_text,
          \<lparr>ai_cache = Map.empty, ai_cache_file = Absent, requests = [''Runebear at Limgrave'']\<rparr>)
   \<and> requests (snd (analyze_with_ai demo_collaborators (EnemyData ''Runebear'' ''Limgrave'' ()) ''enemy''
                      \<lparr>ai_cache = Map.empty, ai_cache_file = Absent, requests = [''Runebear at Limgrave'']\<rparr>))
       = [''Runebear at Limgrave'', ''Runebear at Limgrave'']"
proof -
  have a: "cache_key ''enemy'' (EnemyData ''Runebear'' ''Limgrave'' ()) = Inr ''enemy_Runebear_Limgrave''"
    by (simp add: cache_key_def)
  have b: "ai_cache fresh_advisor ''enemy_Runebear_Limgrave'' = None"
    by (simp add: fresh_advisor_def)
  have c: "prompt_of demo_collaborators ''enemy'' (EnemyData ''Runebear'' ''Limgrave'' ()) = Inr ''Runebear at Limgrave''"
    by (simp add: demo_collaborators_def)
  have d: "service demo_collaborators (length (requests fresh_advisor)) ''Runebear at Limgrave''
       = Inl (OtherError ''timeout'')"
    by (simp add: demo_collaborators_def fresh_advisor_def)
  from C10_failure_not_memoized [OF a b c d] a b c d show ?thesis
    by (simp add: fresh_advisor_def)
qed

section \<open>Ingestion: header detection and the levels\<close>

























section \<open>The dataset cache\<close>






section \<open>Exact-name lookup\<close>

lemma select_by_map: "map fst (filter snd (zip xs (map p xs))) = filter p xs"
  by (induction xs) auto














section \<open>Region aggregate: the resistances\<close>
















section \<open>Region aggregate: the damage negations\<close>





lemma columns_coerce_col: "columns (coerce_col L c df) = columns df"
  by (simp add: coerce_col_def columns_set_column)


lemma columns_fold_coerce: "columns (fold (coerce_col L) cs df) = columns df"
  by (induction cs arbitrary: df) (simp_all add: columns_coerce_col)


lemma columns_ensure_id:
  "set (columns (ensure_id df)) = insert ''ID'' (set (columns df))"
  by (auto simp add: ensure_id_def columns_set_column)




lemma length_rows_via_column: "length (column_cells df c) = length (rows df)"
  by (simp add: column_cells_def)


lemma process_level_result:
  "process_level L raw =
     (if ''Name'' \<in> set (columns raw)
      then Inr (ensure_id (coerce_numeric L (derive_hp L (raw\<lparr>rows := kept_rows raw\<rparr>))))
      else Inl (KeyError ''Name''))"
proof -
  have "map fst (filter snd (zip (map fst (filter snd (zip xs (map p xs))))
            (map q (map fst (filter snd (zip xs (map p xs)))))))
        = filter (\<lambda>x. p x \<and> q x) xs" for xs :: "row list" and p q
    by (simp add: select_by_map conj_commute)
  from this [of "rows raw" "\<lambda>r. \<not> isna (cell_of r ''Name'')" "\<lambda>r. cell_of r ''Name'' \<noteq> Str ''???''"]
  show ?thesis
    by (simp add: process_level_def get_column_def and_then_def select_rows_def Let_def
        kept_rows_def isna_def comp_def)
qed




lemma ingested_columns:
  assumes "process_level L raw = Inr df"
  shows "''Name'' \<in> set (columns raw)"
    and "set (columns df) = set (columns raw) \<union> {''HP'', ''ID''}"
proof -
  show n: "''Name'' \<in> set (columns raw)"
    using assms by (auto simp add: process_level_result split: if_splits)
  with assms have df: "df = ensure_id (coerce_numeric L (derive_hp L (raw\<lparr>rows := kept_rows raw\<rparr>)))"
    by (simp add: process_level_result)
  show "set (columns df) = set (columns raw) \<union> {''HP'', ''ID''}"
    unfolding df
    by (auto simp add: columns_ensure_id coerce_numeric_def columns_fold_coerce columns_derive_hp)
qed







lemma resistance_column_facts:
  assumes "(k, c) \<in> set resistance_columns"
  shows "c \<noteq> ''ID''" and "c \<noteq> ''HP''"
  using assms by (auto simp add: resistance_columns_def)









section \<open>The tables that ingestion produces\<close>

text \<open>Every table that ingestion stores has the \<^verbatim>\<open>Name\<close> column, and each of its rows has
  a \<^verbatim>\<open>Name\<close> cell and an \<^verbatim>\<open>HP\<close> cell: the hypotheses of the exact-name lookup hold for
  the datasets the program builds.\<close>

lemma set_column_keeps_cells:
  assumes "\<forall>r \<in> set (rows df). r k \<noteq> None"
  shows "\<forall>r \<in> set (rows (set_column c vs df)). r k \<noteq> None"
proof
  fix r assume "r \<in> set (rows (set_column c vs df))"
  then obtain r0 v where "(r0, v) \<in> set (zip (rows df) vs)" and r: "r = r0(c \<mapsto> v)"
    by (auto simp add: set_column_def)
  then have "r0 \<in> set (rows df)"
    by (auto dest: set_zip_leftD)
  with assms r show "r k \<noteq> None"
    by simp
qed

lemma coerce_col_keeps_cells:
  "\<forall>r \<in> set (rows df). r k \<noteq> None \<Longrightarrow> \<forall>r \<in> set (rows (coerce_col L c df)). r k \<noteq> None"
  using set_column_keeps_cells by (simp add: coerce_col_def)

lemma fold_coerce_keeps_cells:
  "\<forall>r \<in> set (rows df). r k \<noteq> None \<Longrightarrow>
     \<forall>r \<in> set (rows (fold (coerce_col L) cs df)). r k \<noteq> None"
proof (induction cs arbitrary: df)
  case Nil
  then show ?case by simp
next
  case (Cons c cs)
  from Cons.IH [OF coerce_col_keeps_cells [OF Cons.prems]] show ?case
    by simp
qed

lemma ensure_id_keeps_cells:
  "\<forall>r \<in> set (rows df). r k \<noteq> None \<Longrightarrow> \<forall>r \<in> set (rows (ensure_id df)). r k \<noteq> None"
  using set_column_keeps_cells by (simp add: ensure_id_def)

lemma ingested_rows_have_cells:
  assumes "process_level L raw = Inr df"
  shows "''Name'' \<in> set (columns df)"
    and "\<forall>r \<in> set (rows df). r ''Name'' \<noteq> None \<and> r ''HP'' \<noteq> None"
proof -
  from ingested_columns [OF assms] show "''Name'' \<in> set (columns df)"
    by simp
  from ingested_columns(1) [OF assms] assms
  have df: "df = ensure_id (coerce_numeric L (derive_hp L (raw\<lparr>rows := kept_rows raw\<rparr>)))"
    by (simp add: process_level_result)
  let ?d = "derive_hp L (raw\<lparr>rows := kept_rows raw\<rparr>)"
  have "\<forall>r \<in> set (rows ?d). r ''Name'' \<noteq> None"
    by (auto simp add: rows_derive_hp kept_rows_def cell_of_def split: option.splits)
  then have n: "\<forall>r \<in> set (rows df). r ''Name'' \<noteq> None"
    unfolding df coerce_numeric_def
    by (intro ensure_id_keeps_cells fold_coerce_keeps_cells)
  have "\<forall>r \<in> set (rows ?d). r ''HP'' \<noteq> None"
    by (auto simp add: rows_derive_hp)
  then have h: "\<forall>r \<in> set (rows df). r ''HP'' \<noteq> None"
    unfolding df coerce_numeric_def
    by (intro ensure_id_keeps_cells fold_coerce_keeps_cells)
  from n h show "\<forall>r \<in> set (rows df). r ''Name'' \<noteq> None \<and> r ''HP'' \<noteq> None"
    by blast
qed

end
